theory Spec2Isabelle
  imports Complex_Main
begin

section \<open>Solar carport layout: the placement arithmetic of main.js\<close>

text \<open>
  The theory embeds the two generators of \<^verbatim>\<open>src/main.js\<close> that compute placements:
  \<^verbatim>\<open>createStructure\<close> (columns, rafters, roof sheets and the instanced solar panels) and
  \<^verbatim>\<open>generateParking\<close> (bay dividers and randomly placed vehicles).

  JavaScript numbers are IEEE doubles; they are modelled here as real numbers, so every
  statement is about the exact arithmetic the code writes down, without rounding. A division
  by zero is \<open>Infinity\<close> or \<open>NaN\<close> in JavaScript and \<open>0\<close> in HOL: statements that depend on a
  quotient carry the hypothesis that makes its divisor nonzero, and the one statement made at
  a zero divisor says why the two agree there. Scene graph, materials,
  textures and lighting are left out; a mesh keeps its kind, box dimensions, position,
  the two rotation components the code sets, and its colour.
\<close>

subsection \<open>Configuration\<close>

record structure_config =
  s_length :: real
  s_width :: real
  columnSpacing :: real
  eavesHeight :: real
  ridgeHeight :: real
  rafterColor :: nat
  roofSheetColor :: nat

text \<open>
  One vehicle class of \<^verbatim>\<open>CONFIG.parking\<close>. The field \<open>colors\<close> is \<open>None\<close> when the property is
  absent (the car branch tests it with \<^verbatim>\<open>colors ? ... : 0x444444\<close>).
\<close>

record bay_config =
  b_width :: real
  b_length :: real
  angle :: real
  lineColor :: nat
  lineWidth :: real
  colors :: "nat list option"

record solar_config =
  p_width :: real
  p_length :: real
  rowsPerSlope :: nat
  panelsPerRow :: nat
  gapX :: real
  gapY :: real

record config =
  struct :: structure_config
  car :: bay_config
  coach :: bay_config
  solar :: solar_config

definition CONFIG :: config where
  "CONFIG = \<lparr>
     struct = \<lparr> s_length = 96, s_width = 12, columnSpacing = 6, eavesHeight = 5,
                   ridgeHeight = 59 / 10, rafterColor = 0x1a1a1a, roofSheetColor = 0x222222 \<rparr>,
     car = \<lparr> b_width = 24 / 10, b_length = 48 / 10, angle = 45, lineColor = 0xffffff,
             lineWidth = 1 / 10, colors = Some [0x444444] \<rparr>,
     coach = \<lparr> b_width = 35 / 10, b_length = 12, angle = 30, lineColor = 0xffffff,
               lineWidth = 15 / 100, colors = Some [0x444444] \<rparr>,
     solar = \<lparr> p_width = 1134 / 1000, p_length = 1762 / 1000, rowsPerSlope = 3,
               panelsPerRow = 83, gapX = 3 / 100, gapY = 5 / 100 \<rparr> \<rparr>"

subsection \<open>Placed objects\<close>

datatype kind = Column | Rafter | RoofSheet | BoxLine | CarModel | CoachModel

record mesh =
  kind :: kind
  geo :: "real \<times> real \<times> real"
  px :: real
  py :: real
  pz :: real
  rot_y :: real
  rot_z :: real
  paint :: nat

text \<open>The transform written into one slot of the instanced panel mesh.\<close>

record panel_matrix =
  tx :: real
  ty :: real
  tz :: real
  rz :: real

record group3d =
  children :: "mesh list"
  solarInst :: "panel_matrix option list"
  g_position :: "real \<times> real \<times> real"

text \<open>
  The errors a generator can end with. \<open>TypeError\<close> is what reading \<^verbatim>\<open>.color\<close> of an
  undefined array element throws. \<open>ConfigError\<close> is the error kind the specification
  names; no statement of the source throws it.
\<close>

datatype js_error = TypeError | ConfigError

subsection \<open>Loops\<close>

text \<open>\<^verbatim>\<open>for (let i = i0; i < n; i++) s = body(i, s)\<close> with an integral bound.\<close>

function for_loop :: "int \<Rightarrow> nat \<Rightarrow> (nat \<Rightarrow> 's \<Rightarrow> 's) \<Rightarrow> 's \<Rightarrow> 's" where
  "for_loop n i body s = (if int i < n then for_loop n (Suc i) body (body i s) else s)"
  by pat_completeness auto
termination
  by (relation "measure (\<lambda>(n, i, body, s). nat (n - int i))") auto

declare for_loop.simps [simp del]



subsection \<open>createStructure: derived dimensions\<close>

definition halfSpan :: "config \<Rightarrow> real" where
  "halfSpan cfg = s_width (struct cfg) / 2"

definition height :: "config \<Rightarrow> real" where
  "height cfg = eavesHeight (struct cfg)"

definition rise :: "config \<Rightarrow> real" where
  "rise cfg = ridgeHeight (struct cfg) - height cfg"

definition pitchRad :: "config \<Rightarrow> real" where
  "pitchRad cfg = arctan (rise cfg / halfSpan cfg)"

definition slopeLen :: "config \<Rightarrow> real" where
  "slopeLen cfg = sqrt (rise cfg * rise cfg + halfSpan cfg * halfSpan cfg)"

definition rafterLen :: "config \<Rightarrow> real" where
  "rafterLen cfg = slopeLen cfg + 1 / 2"

definition colCount :: "config \<Rightarrow> int" where
  "colCount cfg = \<lceil>s_length (struct cfg) / columnSpacing (struct cfg)\<rceil> + 1"

subsection \<open>createStructure: columns, rafters and roof sheets\<close>

definition tick_z :: "config \<Rightarrow> nat \<Rightarrow> real" where
  "tick_z cfg i = (real i * columnSpacing (struct cfg)) - (s_length (struct cfg) / 2)"

definition colL :: "config \<Rightarrow> real \<Rightarrow> mesh" where
  "colL cfg z = \<lparr> kind = Column, geo = (2 / 10, height cfg, 2 / 10),
     px = - s_width (struct cfg) / 2, py = height cfg / 2, pz = z,
     rot_y = 0, rot_z = 0, paint = rafterColor (struct cfg) \<rparr>"

definition colR :: "config \<Rightarrow> real \<Rightarrow> mesh" where
  "colR cfg z = \<lparr> kind = Column, geo = (2 / 10, height cfg, 2 / 10),
     px = s_width (struct cfg) / 2, py = height cfg / 2, pz = z,
     rot_y = 0, rot_z = 0, paint = rafterColor (struct cfg) \<rparr>"

definition rafterL :: "config \<Rightarrow> real \<Rightarrow> mesh" where
  "rafterL cfg z = \<lparr> kind = Rafter, geo = (rafterLen cfg, 3 / 10, 15 / 100),
     px = - halfSpan cfg / 2, py = height cfg + rise cfg / 2, pz = z,
     rot_y = 0, rot_z = pitchRad cfg, paint = rafterColor (struct cfg) \<rparr>"

definition rafterR :: "config \<Rightarrow> real \<Rightarrow> mesh" where
  "rafterR cfg z = \<lparr> kind = Rafter, geo = (rafterLen cfg, 3 / 10, 15 / 100),
     px = halfSpan cfg / 2, py = height cfg + rise cfg / 2, pz = z,
     rot_y = 0, rot_z = - pitchRad cfg, paint = rafterColor (struct cfg) \<rparr>"

text \<open>The body of the column loop: four \<^verbatim>\<open>group.add\<close> calls per tick.\<close>

definition column_tick :: "config \<Rightarrow> nat \<Rightarrow> mesh list \<Rightarrow> mesh list" where
  "column_tick cfg i grp =
     (let z = tick_z cfg i
      in grp @ [colL cfg z, colR cfg z, rafterL cfg z, rafterR cfg z])"

definition roofLen :: "config \<Rightarrow> real" where
  "roofLen cfg = s_length (struct cfg) + 1"

definition roofL :: "config \<Rightarrow> mesh" where
  "roofL cfg = \<lparr> kind = RoofSheet, geo = (rafterLen cfg, 5 / 100, roofLen cfg),
     px = - halfSpan cfg / 2, py = height cfg + rise cfg / 2 + 15 / 100, pz = 0,
     rot_y = 0, rot_z = pitchRad cfg, paint = roofSheetColor (struct cfg) \<rparr>"

definition roofR :: "config \<Rightarrow> mesh" where
  "roofR cfg = \<lparr> kind = RoofSheet, geo = (rafterLen cfg, 5 / 100, roofLen cfg),
     px = halfSpan cfg / 2, py = height cfg + rise cfg / 2 + 15 / 100, pz = 0,
     rot_y = 0, rot_z = - pitchRad cfg, paint = roofSheetColor (struct cfg) \<rparr>"

subsection \<open>createStructure: solar panels\<close>

definition totalPanels :: "config \<Rightarrow> nat" where
  "totalPanels cfg = panelsPerRow (solar cfg) * rowsPerSlope (solar cfg) * 2"

text \<open>
  \<^verbatim>\<open>Vector3.applyAxisAngle\<close> for the axis \<open>(0, 0, 1)\<close>: a rotation about the z axis
  (three.js, not part of the repository).
\<close>

definition applyAxisAngleZ :: "real \<times> real \<times> real \<Rightarrow> real \<Rightarrow> real \<times> real \<times> real" where
  "applyAxisAngleZ v a =
     (case v of (x, y, z) \<Rightarrow> (x * cos a - y * sin a, x * sin a + y * cos a, z))"

definition xOffset :: "config \<Rightarrow> nat \<Rightarrow> real" where
  "xOffset cfg row =
     (real row * (p_length (solar cfg) + gapY (solar cfg)))
       - ((real (rowsPerSlope (solar cfg)) * p_length (solar cfg)) / 2)
       + (p_length (solar cfg) / 2)"

definition zOffset :: "config \<Rightarrow> nat \<Rightarrow> real" where
  "zOffset cfg col =
     (real col * (p_width (solar cfg) + gapX (solar cfg)))
       - ((real (panelsPerRow (solar cfg)) * p_width (solar cfg)) / 2)"

definition overhangFix :: real where
  "overhangFix = 2 / 10"

definition left_panel :: "config \<Rightarrow> nat \<Rightarrow> nat \<Rightarrow> panel_matrix" where
  "left_panel cfg row col =
     (let cx = - halfSpan cfg / 2;
          cy = height cfg + rise cfg / 2 + 2 / 10;
          cz = 0;
          vec = applyAxisAngleZ (xOffset cfg row, 5 / 100, zOffset cfg col) (pitchRad cfg)
      in case vec of (vx, vy, vz) \<Rightarrow>
           \<lparr> tx = cx + vx, ty = cy + vy, tz = cz + vz, rz = pitchRad cfg \<rparr>)"

definition right_panel :: "config \<Rightarrow> nat \<Rightarrow> nat \<Rightarrow> panel_matrix" where
  "right_panel cfg row col =
     (let cx = halfSpan cfg / 2;
          cy = height cfg + rise cfg / 2 + 2 / 10;
          cz = 0;
          pitchRadR = - pitchRad cfg;
          vec = applyAxisAngleZ (- xOffset cfg row, 5 / 100, zOffset cfg col) pitchRadR;
          cxFix = cx + (cos pitchRadR * overhangFix);
          cyFix = cy - (sin \<bar>pitchRadR\<bar> * overhangFix)
      in case vec of (vx, vy, vz) \<Rightarrow>
           \<lparr> tx = cxFix + vx, ty = cyFix + vy, tz = cz + vz, rz = pitchRadR \<rparr>)"

text \<open>
  \<^verbatim>\<open>solarInst.setMatrixAt(pIdx++, dummy.matrix)\<close>: the state of the two panel loops is the
  running index and the slots of the instanced mesh. A write past the last slot leaves the
  slots as they are.
\<close>

definition setMatrixAt ::
  "panel_matrix \<Rightarrow> nat \<times> panel_matrix option list \<Rightarrow> nat \<times> panel_matrix option list" where
  "setMatrixAt m st = (case st of (pIdx, inst) \<Rightarrow> (Suc pIdx, inst[pIdx := Some m]))"

definition left_slope ::
  "config \<Rightarrow> nat \<times> panel_matrix option list \<Rightarrow> nat \<times> panel_matrix option list" where
  "left_slope cfg st =
     for_loop (int (rowsPerSlope (solar cfg))) 0
       (\<lambda>row. for_loop (int (panelsPerRow (solar cfg))) 0
                 (\<lambda>col. setMatrixAt (left_panel cfg row col))) st"

definition right_slope ::
  "config \<Rightarrow> nat \<times> panel_matrix option list \<Rightarrow> nat \<times> panel_matrix option list" where
  "right_slope cfg st =
     for_loop (int (rowsPerSlope (solar cfg))) 0
       (\<lambda>row. for_loop (int (panelsPerRow (solar cfg))) 0
                 (\<lambda>col. setMatrixAt (right_panel cfg row col))) st"

subsection \<open>createStructure\<close>

definition createStructure :: "config \<Rightarrow> real \<Rightarrow> real \<Rightarrow> js_error + group3d" where
  "createStructure cfg offsetX offsetY =
     (let grp1 = for_loop (colCount cfg) 0 (column_tick cfg) [];
          grp2 = grp1 @ [roofL cfg, roofR cfg];
          st0 = (0, replicate (totalPanels cfg) None);
          st1 = left_slope cfg st0;
          st2 = right_slope cfg st1
      in Inr \<lparr> children = grp2, solarInst = snd st2, g_position = (offsetX, offsetY, 0) \<rparr>)"

subsection \<open>generateParking: the ambient random generator\<close>

text \<open>
  \<^verbatim>\<open>generateParking\<close> takes no argument and calls \<^verbatim>\<open>Math.random()\<close> directly. The generator is
  modelled by the sequence \<open>rng\<close> of the values it returns, in order, and the number of
  calls made so far, which is part of the state and survives the call.
\<close>

record pstate =
  draws :: nat
  grp :: "mesh list"


definition add :: "mesh \<Rightarrow> pstate \<Rightarrow> pstate" where
  "add m s = s\<lparr> grp := grp s @ [m] \<rparr>"


definition createCarStructure :: "nat \<Rightarrow> mesh" where
  "createCarStructure color = \<lparr> kind = CarModel, geo = (18 / 10, 8 / 10, 45 / 10),
     px = 0, py = 0, pz = 0, rot_y = 0, rot_z = 0, paint = color \<rparr>"

definition createCoachStructure :: "nat \<Rightarrow> mesh" where
  "createCoachStructure color = \<lparr> kind = CoachModel, geo = (25 / 10, 32 / 10, 12),
     px = 0, py = 0, pz = 0, rot_y = 0, rot_z = 0, paint = color \<rparr>"

subsection \<open>generateParking: the car port\<close>

definition bayW :: "config \<Rightarrow> real" where
  "bayW cfg = b_width (car cfg)"

definition bayL :: "config \<Rightarrow> real" where
  "bayL cfg = b_length (car cfg)"

definition angleRad :: "config \<Rightarrow> real" where
  "angleRad cfg = angle (car cfg) * (pi / 180)"

definition zSpacing :: "config \<Rightarrow> real" where
  "zSpacing cfg = bayW cfg / sin (angleRad cfg)"



definition createBoxLine :: "config \<Rightarrow> real \<Rightarrow> real \<Rightarrow> real \<Rightarrow> real \<Rightarrow> mesh" where
  "createBoxLine cfg x z len rotY = \<lparr> kind = BoxLine, geo = (lineWidth (car cfg), 2 / 100, len),
     px = x, py = 2 / 100, pz = z, rot_y = rotY, rot_z = 0, paint = lineColor (car cfg) \<rparr>"

definition port1Center :: real where
  "port1Center = - 6"

definition aisleX_L :: real where
  "aisleX_L = port1Center - 15 / 10"

definition rotL :: real where
  "rotL = pi / 4"

definition aisleX_R :: real where
  "aisleX_R = port1Center + 15 / 10"

definition rotR :: real where
  "rotR = - pi / 4"


definition lLine :: "config \<Rightarrow> real \<Rightarrow> mesh" where
  "lLine cfg z =
     (let lineLen = bayL cfg
      in createBoxLine cfg (aisleX_L - (sin rotL * lineLen / 2)) (z + (cos rotL * lineLen / 2))
           lineLen rotL)"

definition rLine :: "config \<Rightarrow> real \<Rightarrow> mesh" where
  "rLine cfg z =
     (let lineLen = bayL cfg
      in createBoxLine cfg (aisleX_R + (sin \<bar>rotR\<bar> * lineLen / 2)) (z + (cos \<bar>rotR\<bar> * lineLen / 2))
           lineLen rotR)"

definition carDist :: real where
  "carDist = 24 / 10"

definition car_L :: "config \<Rightarrow> real \<Rightarrow> nat \<Rightarrow> mesh" where
  "car_L cfg z chosen =
     (let carZ = z + (zSpacing cfg / 2);
          xL = aisleX_L - (sin rotL * carDist);
          zL = carZ + (cos rotL * carDist)
      in (createCarStructure chosen)\<lparr> px := xL, py := 2 / 100, pz := zL, rot_y := rotL + pi \<rparr>)"

definition car_R :: "config \<Rightarrow> real \<Rightarrow> nat \<Rightarrow> mesh" where
  "car_R cfg z chosen =
     (let carZ = z + (zSpacing cfg / 2);
          xR = aisleX_R + (sin \<bar>rotR\<bar> * carDist);
          zR = carZ + (cos \<bar>rotR\<bar> * carDist)
      in (createCarStructure chosen)\<lparr> px := xR, py := 2 / 100, pz := zR, rot_y := rotR + pi \<rparr>)"




subsection \<open>generateParking: the coach port\<close>

definition coachW :: "config \<Rightarrow> real" where
  "coachW cfg = b_width (coach cfg)"

definition coachL :: "config \<Rightarrow> real" where
  "coachL cfg = b_length (coach cfg)"

definition coachAngle :: "config \<Rightarrow> real" where
  "coachAngle cfg = angle (coach cfg) * (pi / 180)"




definition port2Center :: real where
  "port2Center = 6"

definition aisleX :: real where
  "aisleX = port2Center - 3"


definition coachLine :: "config \<Rightarrow> real \<Rightarrow> mesh" where
  "coachLine cfg z =
     (let lineLen = coachL cfg;
          rot = - coachAngle cfg
      in (createBoxLine cfg (aisleX + (sin \<bar>rot\<bar> * lineLen / 2)) (z + (cos \<bar>rot\<bar> * lineLen / 2))
            lineLen rot)\<lparr> paint := lineColor (coach cfg) \<rparr>)"

definition coach_at :: "config \<Rightarrow> real \<Rightarrow> nat \<Rightarrow> mesh" where
  "coach_at cfg z chosen =
     (let lineLen = coachL cfg;
          rot = - coachAngle cfg;
          centerX = aisleX + (sin \<bar>rot\<bar> * lineLen / 2) + (cos \<bar>rot\<bar> * coachW cfg / 2);
          centerZ = z + (cos \<bar>rot\<bar> * lineLen / 2) - (sin \<bar>rot\<bar> * coachW cfg / 2)
      in (createCoachStructure chosen)
           \<lparr> px := centerX, py := 2 / 100, pz := centerZ, rot_y := rot + pi \<rparr>)"



subsection \<open>generateParking\<close>


section \<open>Notions used to state the properties\<close>

text \<open>The four meshes one pass of the column loop adds.\<close>

definition tick_meshes :: "config \<Rightarrow> nat \<Rightarrow> mesh list" where
  "tick_meshes cfg i = [colL cfg (tick_z cfg i), colR cfg (tick_z cfg i),
                        rafterL cfg (tick_z cfg i), rafterR cfg (tick_z cfg i)]"

text \<open>The invariant the specification puts on the structure part of a configuration.\<close>

definition valid_structure :: "config \<Rightarrow> bool" where
  "valid_structure cfg \<longleftrightarrow>
     0 < s_width (struct cfg) \<and> 0 < s_length (struct cfg) \<and>
     0 < columnSpacing (struct cfg) \<and> eavesHeight (struct cfg) < ridgeHeight (struct cfg)"

text \<open>The columns of a group on the left and on the right edge of the span.\<close>

definition left_columns :: "config \<Rightarrow> group3d \<Rightarrow> mesh list" where
  "left_columns cfg g = [m \<leftarrow> children g. kind m = Column \<and> px m = - s_width (struct cfg) / 2]"

definition right_columns :: "config \<Rightarrow> group3d \<Rightarrow> mesh list" where
  "right_columns cfg g = [m \<leftarrow> children g. kind m = Column \<and> px m = s_width (struct cfg) / 2]"

text \<open>The panels of one slope in the order the nested loops visit them.\<close>

definition panel_grid :: "(nat \<Rightarrow> nat \<Rightarrow> panel_matrix) \<Rightarrow> nat \<Rightarrow> nat \<Rightarrow> panel_matrix list" where
  "panel_grid f R C = concat (map (\<lambda>row. map (f row) [0..<C]) [0..<R])"

text \<open>The left-slope construction reflected in the plane x = 0, with no correction.\<close>

definition mirrored_left_panel :: "config \<Rightarrow> nat \<Rightarrow> nat \<Rightarrow> panel_matrix" where
  "mirrored_left_panel cfg row col =
     (let cx = halfSpan cfg / 2;
          cy = height cfg + rise cfg / 2 + 2 / 10;
          vec = applyAxisAngleZ (- xOffset cfg row, 5 / 100, zOffset cfg col) (- pitchRad cfg)
      in case vec of (vx, vy, vz) \<Rightarrow>
           \<lparr> tx = cx + vx, ty = cy + vy, tz = vz, rz = - pitchRad cfg \<rparr>)"

text \<open>The mean of a quantity over the \<open>(row, col)\<close> pairs of one slope.\<close>

definition slope_mean :: "config \<Rightarrow> (nat \<Rightarrow> nat \<Rightarrow> real) \<Rightarrow> real" where
  "slope_mean cfg f =
     (\<Sum>row<rowsPerSlope (solar cfg). \<Sum>col<panelsPerRow (solar cfg). f row col)
       / real (rowsPerSlope (solar cfg) * panelsPerRow (solar cfg))"

















section \<open>Properties\<close>

subsection \<open>Loops as folds; the shipped frame\<close>

lemma for_loop_fold: "for_loop n i body s = fold body [i..<nat n] s"
proof (induction n i body s rule: for_loop.induct)
  case (1 n i body s)
  show ?case
  proof (cases "int i < n")
    case True
    then have "i < nat n" by simp
    then have "[i..<nat n] = i # [Suc i..<nat n]" by (rule upt_conv_Cons)
    with True 1 show ?thesis by (subst for_loop.simps) simp
  next
    case False
    then have "[i..<nat n] = []" by simp
    with False show ?thesis by (subst for_loop.simps) simp
  qed
qed

lemma fold_snoc_concat: "fold (\<lambda>i acc. acc @ f i) xs acc = acc @ concat (map f xs)"
  by (induction xs arbitrary: acc) simp_all

lemma column_loop:
  "for_loop (colCount cfg) 0 (column_tick cfg) [] =
     concat (map (tick_meshes cfg) [0..<nat (colCount cfg)])"
proof -
  have "column_tick cfg = (\<lambda>i acc. acc @ tick_meshes cfg i)"
    by (intro ext) (simp add: column_tick_def tick_meshes_def Let_def)
  then show ?thesis by (simp add: for_loop_fold fold_snoc_concat)
qed




subsection \<open>Columns and rafters\<close>

lemma filter_concat_map: "filter P (concat (map f xs)) = concat (map (\<lambda>x. filter P (f x)) xs)"
  by (induction xs) simp_all

lemma createStructure_children:
  "createStructure cfg ox oy = Inr g \<Longrightarrow>
     children g = concat (map (tick_meshes cfg) [0..<nat (colCount cfg)]) @ [roofL cfg, roofR cfg]"
  by (auto simp: createStructure_def Let_def column_loop)

lemma createStructure_returns: "\<exists>g. createStructure cfg ox oy = Inr g"
  by (simp add: createStructure_def Let_def)

lemma left_columns_eq:
  assumes "0 < s_width (struct cfg)" and "createStructure cfg ox oy = Inr g"
  shows "left_columns cfg g = map (\<lambda>i. colL cfg (tick_z cfg i)) [0..<nat (colCount cfg)]"
proof -
  have "\<And>i. [m \<leftarrow> tick_meshes cfg i. kind m = Column \<and> px m = - s_width (struct cfg) / 2]
          = [colL cfg (tick_z cfg i)]"
    using assms(1) by (simp add: tick_meshes_def colL_def colR_def rafterL_def rafterR_def)
  then show ?thesis
    using createStructure_children [OF assms(2)]
    by (simp add: left_columns_def filter_concat_map roofL_def roofR_def)
qed

lemma right_columns_eq:
  assumes "0 < s_width (struct cfg)" and "createStructure cfg ox oy = Inr g"
  shows "right_columns cfg g = map (\<lambda>i. colR cfg (tick_z cfg i)) [0..<nat (colCount cfg)]"
proof -
  have "\<And>i. [m \<leftarrow> tick_meshes cfg i. kind m = Column \<and> px m = s_width (struct cfg) / 2]
          = [colR cfg (tick_z cfg i)]"
    using assms(1) by (simp add: tick_meshes_def colL_def colR_def rafterL_def rafterR_def)
  then show ?thesis
    using createStructure_children [OF assms(2)]
    by (simp add: right_columns_def filter_concat_map roofL_def roofR_def)
qed


lemma colCount_ge_2:
  assumes "valid_structure cfg"
  shows "2 \<le> colCount cfg"
proof -
  have "0 < s_length (struct cfg) / columnSpacing (struct cfg)"
    using assms by (simp add: valid_structure_def)
  then have "0 < \<lceil>s_length (struct cfg) / columnSpacing (struct cfg)\<rceil>"
    by (simp add: ceiling_less_iff less_ceiling_iff)
  then show ?thesis by (simp add: colCount_def)
qed


lemma valid_structure_CONFIG: "valid_structure CONFIG"
  by (simp add: valid_structure_def CONFIG_def)


lemma filter_eq_upt: "filter (\<lambda>i. i = k) [0..<n] = (if k < n then [k] else [])"
  by (induction n) auto

text \<open>
  Claim C8. For every valid structure configuration the emitted columns are bilaterally
  symmetric: there are left columns, each at \<open>x = - width / 2\<close>, every right column is at
  \<open>x = + width / 2\<close>, and for each left column exactly one right column has its \<open>z\<close>.
\<close>

theorem columns_bilaterally_symmetric:
  assumes "valid_structure cfg"
  shows "\<exists>g. createStructure cfg ox oy = Inr g \<and>
           left_columns cfg g \<noteq> [] \<and>
           length (right_columns cfg g) = length (left_columns cfg g) \<and>
           (\<forall>l \<in> set (left_columns cfg g).
              px l = - s_width (struct cfg) / 2 \<and>
              length [r \<leftarrow> right_columns cfg g. pz r = pz l] = 1) \<and>
           (\<forall>r \<in> set (right_columns cfg g). px r = s_width (struct cfg) / 2)"
proof -
  obtain g where g: "createStructure cfg ox oy = Inr g"
    using createStructure_returns by blast
  have w: "0 < s_width (struct cfg)" and cs: "0 < columnSpacing (struct cfg)"
    using assms by (simp_all add: valid_structure_def)
  note L = left_columns_eq [OF w g] and R = right_columns_eq [OF w g]
  have ne: "left_columns cfg g \<noteq> []"
    using colCount_ge_2 [OF assms] by (simp add: L)
  have len: "length (right_columns cfg g) = length (left_columns cfg g)"
    by (simp add: L R)
  have one: "px l = - s_width (struct cfg) / 2 \<and>
             length [r \<leftarrow> right_columns cfg g. pz r = pz l] = 1"
    if "l \<in> set (left_columns cfg g)" for l
  proof -
    from that obtain k where k: "k < nat (colCount cfg)" and l: "l = colL cfg (tick_z cfg k)"
      unfolding L by auto
    have inj: "\<And>i. tick_z cfg i = tick_z cfg k \<longleftrightarrow> i = k"
      using cs by (simp add: tick_z_def)
    have "[r \<leftarrow> right_columns cfg g. pz r = pz l]
            = map (\<lambda>i. colR cfg (tick_z cfg i)) (filter (\<lambda>i. i = k) [0..<nat (colCount cfg)])"
      by (simp add: R l filter_map comp_def colL_def colR_def inj)
    with k have "length [r \<leftarrow> right_columns cfg g. pz r = pz l] = 1"
      by (simp add: filter_eq_upt)
    moreover have "px l = - s_width (struct cfg) / 2" by (simp add: l colL_def)
    ultimately show ?thesis by blast
  qed
  have right: "\<forall>r \<in> set (right_columns cfg g). px r = s_width (struct cfg) / 2"
    by (simp add: right_columns_def)
  from g ne len one right show ?thesis by blast
qed

theorem columns_bilaterally_symmetric_witness:
  "valid_structure CONFIG \<and>
   (\<exists>g. createStructure CONFIG (- 6) 0 = Inr g \<and> left_columns CONFIG g \<noteq> [] \<and>
      px (hd (left_columns CONFIG g)) = - 6 \<and>
      length [r \<leftarrow> right_columns CONFIG g. pz r = pz (hd (left_columns CONFIG g))] = 1)"
proof -
  from columns_bilaterally_symmetric [OF valid_structure_CONFIG, of "- 6" 0]
  obtain g where g: "createStructure CONFIG (- 6) 0 = Inr g"
    and ne: "left_columns CONFIG g \<noteq> []"
    and all: "\<forall>l \<in> set (left_columns CONFIG g).
              px l = - s_width (struct CONFIG) / 2 \<and>
              length [r \<leftarrow> right_columns CONFIG g. pz r = pz l] = 1"
    by blast
  from ne have "hd (left_columns CONFIG g) \<in> set (left_columns CONFIG g)" by simp
  with all have "px (hd (left_columns CONFIG g)) = - s_width (struct CONFIG) / 2"
    and "length [r \<leftarrow> right_columns CONFIG g. pz r = pz (hd (left_columns CONFIG g))] = 1"
    by blast+
  moreover have "- s_width (struct CONFIG) / 2 = - 6" by (simp add: CONFIG_def)
  ultimately show ?thesis using valid_structure_CONFIG g ne by auto
qed

subsection \<open>The panel loops\<close>

lemma for_loop_fold_fun: "for_loop n i body = fold body [i..<nat n]"
  by (intro ext) (rule for_loop_fold)

lemma fill_cols:
  "p + length cs \<le> length inst \<Longrightarrow>
     fold (\<lambda>col. setMatrixAt (f col)) cs (p, inst)
       = (p + length cs, take p inst @ map (\<lambda>c. Some (f c)) cs @ drop (p + length cs) inst)"
proof (induction cs arbitrary: p inst)
  case Nil
  then show ?case by simp
next
  case (Cons c cs)
  let ?inst = "inst[p := Some (f c)]"
  from Cons.prems have p: "p < length inst" by simp
  have t: "take (Suc p) ?inst = take p inst @ [Some (f c)]"
    using p by (simp add: take_Suc_conv_app_nth)
  have d: "drop (Suc p + length cs) ?inst = drop (Suc p + length cs) inst"
    by simp
  have "fold (\<lambda>col. setMatrixAt (f col)) (c # cs) (p, inst)
          = fold (\<lambda>col. setMatrixAt (f col)) cs (Suc p, ?inst)"
    by (simp add: setMatrixAt_def)
  also have "\<dots> = (Suc p + length cs,
                    take (Suc p) ?inst @ map (\<lambda>c. Some (f c)) cs @ drop (Suc p + length cs) ?inst)"
    using Cons.prems by (intro Cons.IH) simp
  finally show ?case by (simp add: t d)
qed

lemma fill_rows:
  "p + length rs * C \<le> length inst \<Longrightarrow>
     fold (\<lambda>row. fold (\<lambda>col. setMatrixAt (f row col)) [0..<C]) rs (p, inst)
       = (p + length rs * C,
          take p inst @ map Some (concat (map (\<lambda>row. map (f row) [0..<C]) rs))
            @ drop (p + length rs * C) inst)"
proof (induction rs arbitrary: p inst)
  case Nil
  then show ?case by simp
next
  case (Cons r rs)
  let ?row = "map (\<lambda>c. Some (f r c)) [0..<C]"
  let ?inst = "take p inst @ ?row @ drop (p + C) inst"
  from Cons.prems have b: "p + C \<le> length inst" "p + C + length rs * C \<le> length inst"
    by simp_all
  have one: "fold (\<lambda>col. setMatrixAt (f r col)) [0..<C] (p, inst) = (p + C, ?inst)"
    using fill_cols [of p "[0..<C]" inst "f r"] b(1) by simp
  have len: "length ?inst = length inst" using b(1) by simp
  have t: "take (p + C) ?inst = take p inst @ ?row" using b(1) by simp
  have d: "drop (p + C + length rs * C) ?inst = drop (p + C + length rs * C) inst"
    using b by (simp add: add.commute)
  have "fold (\<lambda>row. fold (\<lambda>col. setMatrixAt (f row col)) [0..<C]) (r # rs) (p, inst)
          = fold (\<lambda>row. fold (\<lambda>col. setMatrixAt (f row col)) [0..<C]) rs (p + C, ?inst)"
    by (simp add: one)
  also have "\<dots> = (p + C + length rs * C,
        take (p + C) ?inst @ map Some (concat (map (\<lambda>row. map (f row) [0..<C]) rs))
          @ drop (p + C + length rs * C) ?inst)"
    using b(2) len by (intro Cons.IH) simp
  also have "\<dots> = (p + length (r # rs) * C,
        take p inst @ map Some (concat (map (\<lambda>row. map (f row) [0..<C]) (r # rs)))
          @ drop (p + length (r # rs) * C) inst)"
    unfolding t d by (simp add: ac_simps comp_def)
  finally show ?case .
qed

lemma length_panel_grid: "length (panel_grid f R C) = R * C"
  by (induction R) (simp_all add: panel_grid_def)

lemma slope_loop:
  assumes "p + R * C \<le> length inst"
  shows "for_loop (int R) 0 (\<lambda>row. for_loop (int C) 0 (\<lambda>col. setMatrixAt (f row col))) (p, inst)
           = (p + R * C, take p inst @ map Some (panel_grid f R C) @ drop (p + R * C) inst)"
  using fill_rows [of p "[0..<R]" C inst f] assms
  by (simp add: for_loop_fold_fun panel_grid_def)

lemma createStructure_solarInst:
  assumes "createStructure cfg ox oy = Inr g"
  shows "solarInst g =
           map Some (panel_grid (left_panel cfg) (rowsPerSlope (solar cfg)) (panelsPerRow (solar cfg))
                     @ panel_grid (right_panel cfg) (rowsPerSlope (solar cfg)) (panelsPerRow (solar cfg)))"
proof -
  let ?R = "rowsPerSlope (solar cfg)" and ?C = "panelsPerRow (solar cfg)"
  let ?st0 = "(0 :: nat, replicate (totalPanels cfg) (None :: panel_matrix option))"
  have tot: "totalPanels cfg = ?R * ?C + ?R * ?C" by (simp add: totalPanels_def)
  have l: "left_slope cfg ?st0
             = (?R * ?C, map Some (panel_grid (left_panel cfg) ?R ?C) @ replicate (?R * ?C) None)"
    unfolding left_slope_def
    using slope_loop [of 0 ?R ?C "snd ?st0" "left_panel cfg"] by (simp add: tot)
  have r: "right_slope cfg (?R * ?C, map Some (panel_grid (left_panel cfg) ?R ?C) @ replicate (?R * ?C) None)
             = (?R * ?C + ?R * ?C, map Some (panel_grid (left_panel cfg) ?R ?C) @ map Some (panel_grid (right_panel cfg) ?R ?C))"
    unfolding right_slope_def
    using slope_loop [of "?R * ?C" ?R ?C "map Some (panel_grid (left_panel cfg) ?R ?C) @ replicate (?R * ?C) None" "right_panel cfg"]
    by (simp add: length_panel_grid)
  from assms show ?thesis
    by (auto simp: createStructure_def Let_def l r)
qed

text \<open>
  Claim C2. Whatever the configuration, the two panel loops of \<^verbatim>\<open>createStructure\<close> write
  exactly \<open>rowsPerSlope * panelsPerRow * 2\<close> instances: every slot of the instanced mesh is
  written, the first \<open>rowsPerSlope * panelsPerRow\<close> with the left-slope panels in row-major
  order and the remaining \<open>rowsPerSlope * panelsPerRow\<close> with the right-slope panels.
\<close>

theorem solar_panel_count:
  "\<exists>g. createStructure cfg ox oy = Inr g \<and>
     length (solarInst g) = rowsPerSlope (solar cfg) * panelsPerRow (solar cfg) * 2 \<and>
     None \<notin> set (solarInst g) \<and>
     solarInst g =
       map Some (panel_grid (left_panel cfg) (rowsPerSlope (solar cfg)) (panelsPerRow (solar cfg)))
       @ map Some (panel_grid (right_panel cfg) (rowsPerSlope (solar cfg)) (panelsPerRow (solar cfg))) \<and>
     length (panel_grid (left_panel cfg) (rowsPerSlope (solar cfg)) (panelsPerRow (solar cfg)))
       = rowsPerSlope (solar cfg) * panelsPerRow (solar cfg) \<and>
     length (panel_grid (right_panel cfg) (rowsPerSlope (solar cfg)) (panelsPerRow (solar cfg)))
       = rowsPerSlope (solar cfg) * panelsPerRow (solar cfg)"
proof -
  obtain g where g: "createStructure cfg ox oy = Inr g"
    using createStructure_returns by blast
  note s = createStructure_solarInst [OF g]
  have "length (solarInst g) = rowsPerSlope (solar cfg) * panelsPerRow (solar cfg) * 2"
    by (simp add: s length_panel_grid)
  moreover have "None \<notin> set (solarInst g)" by (auto simp: s)
  ultimately show ?thesis using g s by (auto simp: length_panel_grid)
qed

lemma panel_grid_nth:
  assumes "row < R" and "col < C"
  shows "panel_grid f R C ! (row * C + col) = f row col"
  using assms(1)
proof (induction R)
  case 0
  then show ?case by simp
next
  case (Suc R)
  have split: "panel_grid f (Suc R) C = panel_grid f R C @ map (f R) [0..<C]"
    by (simp add: panel_grid_def)
  show ?case
  proof (cases "row < R")
    case True
    then have "Suc row \<le> R" by simp
    then have "Suc row * C \<le> R * C" by (rule mult_le_mono1)
    with assms(2) have "row * C + col < R * C" by simp
    with True Suc.IH show ?thesis by (simp add: split nth_append length_panel_grid)
  next
    case False
    with Suc.prems have "row = R" by simp
    with assms(2) show ?thesis by (simp add: split nth_append length_panel_grid)
  qed
qed

subsection \<open>Panel positions\<close>

lemma pitchRad_pos:
  assumes "valid_structure cfg"
  shows "0 < pitchRad cfg" and "pitchRad cfg < pi / 2"
proof -
  have "0 < rise cfg / halfSpan cfg"
    using assms by (simp add: valid_structure_def rise_def height_def halfSpan_def)
  then show "0 < pitchRad cfg" by (simp add: pitchRad_def)
  show "pitchRad cfg < pi / 2" unfolding pitchRad_def by (rule arctan_ubound)
qed

lemma left_panel_fields:
  "tx (left_panel cfg row col)
     = - halfSpan cfg / 2 + (xOffset cfg row * cos (pitchRad cfg) - 5 / 100 * sin (pitchRad cfg))"
  "ty (left_panel cfg row col)
     = height cfg + rise cfg / 2 + 2 / 10
        + (xOffset cfg row * sin (pitchRad cfg) + 5 / 100 * cos (pitchRad cfg))"
  "tz (left_panel cfg row col) = zOffset cfg col"
  "rz (left_panel cfg row col) = pitchRad cfg"
  by (simp_all add: left_panel_def applyAxisAngleZ_def Let_def)

lemma right_panel_fields:
  assumes "0 \<le> pitchRad cfg"
  shows "tx (right_panel cfg row col)
     = halfSpan cfg / 2 + cos (pitchRad cfg) * overhangFix
        - (xOffset cfg row * cos (pitchRad cfg) - 5 / 100 * sin (pitchRad cfg))"
  "ty (right_panel cfg row col)
     = height cfg + rise cfg / 2 + 2 / 10 - sin (pitchRad cfg) * overhangFix
        + (xOffset cfg row * sin (pitchRad cfg) + 5 / 100 * cos (pitchRad cfg))"
  "tz (right_panel cfg row col) = zOffset cfg col"
  "rz (right_panel cfg row col) = - pitchRad cfg"
  using assms by (simp_all add: right_panel_def applyAxisAngleZ_def Let_def)

text \<open>
  Claim C6. For a valid structure configuration and a panel position \<open>(row, col)\<close> of the grid,
  the instance written for the right slope is the mirrored left-slope construction (anchor
  \<open>+ halfSpan / 2\<close>, offset \<open>- xOffset\<close>, rotation \<open>- pitch\<close>) translated by
  \<open>\<Delta>x = cos pitch * overhangFix\<close> and \<open>\<Delta>y = - sin pitch * overhangFix\<close>, which points away from
  the ridge and downwards; the instance written for the left slope is the plain construction
  with no such translation.
\<close>

theorem right_slope_overhang_correction:
  assumes "valid_structure cfg"
    and "row < rowsPerSlope (solar cfg)" and "col < panelsPerRow (solar cfg)"
  shows "\<exists>g. createStructure cfg ox oy = Inr g \<and>
     solarInst g ! (row * panelsPerRow (solar cfg) + col) = Some (left_panel cfg row col) \<and>
     solarInst g ! (rowsPerSlope (solar cfg) * panelsPerRow (solar cfg)
                     + (row * panelsPerRow (solar cfg) + col)) = Some (right_panel cfg row col) \<and>
     tx (right_panel cfg row col)
       = tx (mirrored_left_panel cfg row col) + cos (pitchRad cfg) * overhangFix \<and>
     ty (right_panel cfg row col)
       = ty (mirrored_left_panel cfg row col) - sin (pitchRad cfg) * overhangFix \<and>
     tz (right_panel cfg row col) = tz (mirrored_left_panel cfg row col) \<and>
     rz (right_panel cfg row col) = rz (mirrored_left_panel cfg row col) \<and>
     tx (mirrored_left_panel cfg row col) = - tx (left_panel cfg row col) \<and>
     ty (mirrored_left_panel cfg row col) = ty (left_panel cfg row col) \<and>
     tz (mirrored_left_panel cfg row col) = tz (left_panel cfg row col) \<and>
     rz (mirrored_left_panel cfg row col) = - rz (left_panel cfg row col) \<and>
     tx (left_panel cfg row col)
       = - halfSpan cfg / 2 + (xOffset cfg row * cos (pitchRad cfg) - 5 / 100 * sin (pitchRad cfg)) \<and>
     ty (left_panel cfg row col)
       = height cfg + rise cfg / 2 + 2 / 10
           + (xOffset cfg row * sin (pitchRad cfg) + 5 / 100 * cos (pitchRad cfg)) \<and>
     0 < cos (pitchRad cfg) * overhangFix \<and> - sin (pitchRad cfg) * overhangFix < 0"
proof -
  let ?R = "rowsPerSlope (solar cfg)" and ?C = "panelsPerRow (solar cfg)"
  obtain g where g: "createStructure cfg ox oy = Inr g"
    using createStructure_returns by blast
  note p = pitchRad_pos [OF assms(1)]
  have p0: "0 \<le> pitchRad cfg" using p(1) by simp
  have idx: "row * ?C + col < ?R * ?C"
  proof -
    have "Suc row * ?C \<le> ?R * ?C" using assms(2) by (intro mult_le_mono1) simp
    with assms(3) show ?thesis by simp
  qed
  have sl: "solarInst g ! (row * ?C + col) = Some (left_panel cfg row col)"
    using idx assms(2,3)
    by (simp add: createStructure_solarInst [OF g] nth_append length_panel_grid panel_grid_nth)
  have sr: "solarInst g ! (?R * ?C + (row * ?C + col)) = Some (right_panel cfg row col)"
    using idx assms(2,3)
    by (simp add: createStructure_solarInst [OF g] nth_append length_panel_grid panel_grid_nth)
  have m: "tx (mirrored_left_panel cfg row col) = - tx (left_panel cfg row col)"
      "ty (mirrored_left_panel cfg row col) = ty (left_panel cfg row col)"
      "tz (mirrored_left_panel cfg row col) = tz (left_panel cfg row col)"
      "rz (mirrored_left_panel cfg row col) = - rz (left_panel cfg row col)"
    by (simp_all add: mirrored_left_panel_def left_panel_def applyAxisAngleZ_def Let_def)
  have r: "tx (right_panel cfg row col)
       = tx (mirrored_left_panel cfg row col) + cos (pitchRad cfg) * overhangFix"
     "ty (right_panel cfg row col)
       = ty (mirrored_left_panel cfg row col) - sin (pitchRad cfg) * overhangFix"
     "tz (right_panel cfg row col) = tz (mirrored_left_panel cfg row col)"
     "rz (right_panel cfg row col) = rz (mirrored_left_panel cfg row col)"
    using p0 by (simp_all add: mirrored_left_panel_def right_panel_def applyAxisAngleZ_def Let_def)
  have c: "0 < cos (pitchRad cfg)" using p by (intro cos_gt_zero_pi) simp_all
  have s: "0 < sin (pitchRad cfg)" using p pi_gt_zero by (intro sin_gt_zero) simp_all
  have d: "0 < cos (pitchRad cfg) * overhangFix" "- sin (pitchRad cfg) * overhangFix < 0"
    using c s by (simp_all add: overhangFix_def)
  show ?thesis
    using g sl sr m r d left_panel_fields(1,2) [of cfg row col] by blast
qed

theorem right_slope_overhang_correction_witness:
  "valid_structure CONFIG \<and> 0 < rowsPerSlope (solar CONFIG) \<and> 0 < panelsPerRow (solar CONFIG) \<and>
   (\<exists>g. createStructure CONFIG (- 6) 0 = Inr g \<and>
      solarInst g ! 0 = Some (left_panel CONFIG 0 0) \<and>
      solarInst g ! 249 = Some (right_panel CONFIG 0 0) \<and>
      tx (right_panel CONFIG 0 0)
        = tx (mirrored_left_panel CONFIG 0 0) + cos (pitchRad CONFIG) * overhangFix \<and>
      ty (right_panel CONFIG 0 0)
        = ty (mirrored_left_panel CONFIG 0 0) - sin (pitchRad CONFIG) * overhangFix)"
proof -
  have R: "rowsPerSlope (solar CONFIG) = 3" and C: "panelsPerRow (solar CONFIG) = 83"
    by (simp_all add: CONFIG_def)
  have r: "0 < rowsPerSlope (solar CONFIG)" and c: "0 < panelsPerRow (solar CONFIG)"
    by (simp_all add: R C)
  from right_slope_overhang_correction [OF valid_structure_CONFIG r c, of "- 6" 0]
  show ?thesis using valid_structure_CONFIG by (auto simp: R C)
qed

lemma sum_real_lessThan: "(\<Sum>i<n. real i) = real n * (real n - 1) / 2"
  by (induction n) (simp_all add: field_simps)

lemma slope_mean_xOffset:
  assumes "0 < rowsPerSlope (solar cfg)" and "0 < panelsPerRow (solar cfg)"
  shows "slope_mean cfg (\<lambda>row col. xOffset cfg row)
           = (real (rowsPerSlope (solar cfg)) - 1) * gapY (solar cfg) / 2"
proof -
  let ?R = "rowsPerSlope (solar cfg)" and ?C = "panelsPerRow (solar cfg)"
  let ?L = "p_length (solar cfg)" and ?g = "gapY (solar cfg)"
  have "(\<Sum>row<?R. xOffset cfg row) = (\<Sum>row<?R. real row) * (?L + ?g) - real ?R * (real ?R * ?L / 2) + real ?R * (?L / 2)"
    by (simp add: xOffset_def sum.distrib sum_subtractf sum_distrib_right)
  also have "\<dots> = real ?R * ((real ?R - 1) * ?g / 2)"
    by (simp add: sum_real_lessThan field_simps)
  finally have "(\<Sum>row<?R. xOffset cfg row) = real ?R * ((real ?R - 1) * ?g / 2)" .
  moreover have "(\<Sum>row<?R. \<Sum>col<?C. xOffset cfg row) = real ?C * (\<Sum>row<?R. xOffset cfg row)"
    by (simp add: sum_distrib_left)
  ultimately show ?thesis
    using assms by (simp add: slope_mean_def)
qed

lemma slope_mean_zOffset:
  assumes "0 < rowsPerSlope (solar cfg)" and "0 < panelsPerRow (solar cfg)"
  shows "slope_mean cfg (\<lambda>row col. zOffset cfg col)
           = ((real (panelsPerRow (solar cfg)) - 1) * gapX (solar cfg) - p_width (solar cfg)) / 2"
proof -
  let ?R = "rowsPerSlope (solar cfg)" and ?C = "panelsPerRow (solar cfg)"
  let ?W = "p_width (solar cfg)" and ?g = "gapX (solar cfg)"
  have "(\<Sum>col<?C. zOffset cfg col) = (\<Sum>col<?C. real col) * (?W + ?g) - real ?C * (real ?C * ?W / 2)"
    by (simp add: zOffset_def sum.distrib sum_subtractf sum_distrib_right)
  also have "\<dots> = real ?C * (((real ?C - 1) * ?g - ?W) / 2)"
    by (simp add: sum_real_lessThan field_simps)
  finally have "(\<Sum>col<?C. zOffset cfg col) = real ?C * (((real ?C - 1) * ?g - ?W) / 2)" .
  then show ?thesis
    using assms by (simp add: slope_mean_def)
qed

text \<open>
  Claim C7 says that the mean of \<open>xOffset\<close> and the mean of \<open>zOffset\<close> over the panels of one
  slope are zero. In the code \<open>xOffset\<close> subtracts half of \<open>rowsPerSlope * length\<close> and leaves
  the gaps out, and \<open>zOffset\<close> leaves out both the gaps and the half panel width: the means
  are \<open>(rowsPerSlope - 1) * gapY / 2\<close> and \<open>((panelsPerRow - 1) * gapX - width) / 2\<close>. For the
  shipped configuration they are 0.05 m and 0.663 m.
\<close>

theorem slope_offsets_not_centered_CONFIG:
  "slope_mean CONFIG (\<lambda>row col. xOffset CONFIG row) = 5 / 100 \<and>
   slope_mean CONFIG (\<lambda>row col. zOffset CONFIG col) = 663 / 1000"
proof -
  have R: "0 < rowsPerSlope (solar CONFIG)" and C: "0 < panelsPerRow (solar CONFIG)"
    by (simp_all add: CONFIG_def)
  show ?thesis
    unfolding slope_mean_xOffset [OF R C] slope_mean_zOffset [OF R C]
    by (simp add: CONFIG_def)
qed

subsection \<open>Loops whose body may throw\<close>








subsection \<open>One draw, one colour, one car\<close>







subsection \<open>Bays and dividers\<close>

lemma kind_simps [simp]:
  "kind (lLine cfg z) = BoxLine" "kind (rLine cfg z) = BoxLine" "kind (coachLine cfg z) = BoxLine"
  "kind (car_L cfg z c) = CarModel" "kind (car_R cfg z c) = CarModel"
  "kind (coach_at cfg z c) = CoachModel"
  by (simp_all add: lLine_def rLine_def coachLine_def createBoxLine_def car_L_def car_R_def
        coach_at_def createCarStructure_def createCoachStructure_def Let_def)













subsection \<open>The shipped parking geometry\<close>

lemma deg45: "(45 :: real) * (pi / 180) = pi / 4" by simp
lemma deg30: "(30 :: real) * (pi / 180) = pi / 6" by simp







subsection \<open>Bay pitch and bay count\<close>








subsection \<open>Mirrored car dividers\<close>




subsection \<open>Vehicle anchors\<close>










subsection \<open>Runs that see the same draws\<close>








subsection \<open>Successive invocations\<close>









subsection \<open>Degenerate configurations\<close>





lemma deg90: "(90 :: real) * (pi / 180) = pi / 2" by simp












end
